theory Spec2Isabelle
  imports Main "HOL-Library.Word"
begin

section \<open>Machine integers of the C++ source\<close>

text \<open>
  The library is compiled for Windows, macOS and Linux, where \<open>int\<close> has 32 bits and is
  read in two's complement (\<open>sint\<close>, \<open>\<le>s\<close>, \<open><s\<close>), and \<open>uint64_t\<close> and \<open>uint32_t\<close> are
  unsigned words whose arithmetic wraps around.  A pointer is a 64-bit address and
  \<open>nullptr\<close> is the address 0.
\<close>

type_synonym c_int = "32 word"
type_synonym uint32_t = "32 word"
type_synonym uint64_t = "64 word"
type_synonym addr = "64 word"

definition INT_MAX :: c_int where
  "INT_MAX = 0x7FFFFFFF"

section \<open>Factorial\<close>

subsection \<open>The runtime loop of \<open>calculateFactorialRuntime\<close>\<close>

text \<open>
  \<^verbatim>\<open>for (int i = 2; i <= n; ++i) { result *= i; }\<close>

  The counter \<open>i\<close> is a signed \<open>int\<close>.  In \<open>result *= i\<close> it is converted to
  \<open>uint64_t\<close> (\<open>scast\<close>) and the product wraps modulo \<open>2 ^ 64\<close>.  The increment \<open>++i\<close>
  of a counter that holds \<open>INT_MAX\<close> is a signed overflow, which C++ leaves undefined:
  the model returns \<open>None\<close> there, and \<open>Some\<close> of the returned value otherwise.
\<close>

function factorial_loop :: "c_int \<Rightarrow> c_int \<Rightarrow> uint64_t \<Rightarrow> uint64_t option" where
  "factorial_loop n i result =
     (if i \<le>s n then
        (if i = INT_MAX then None
         else factorial_loop n (i + 1) (result * scast i))
      else Some result)"
  by pat_completeness auto
termination
proof (relation "measure (\<lambda>(n, i, result). nat (sint n + 1 - sint i))")
  show "wf (measure (\<lambda>(n :: c_int, i :: c_int, result :: uint64_t). nat (sint n + 1 - sint i)))"
    by simp
next
  fix n i :: c_int and result :: uint64_t
  assume le: "i \<le>s n" and ne: "i \<noteq> INT_MAX"
  have "sint i \<noteq> sint INT_MAX"
    using ne word_eq_iff_signed [of i INT_MAX, where ?'a = int] by simp
  then have "sint i \<noteq> 2147483647"
    by (simp add: INT_MAX_def)
  moreover have "sint i < 2147483648"
    using sint_less [of i] by simp
  moreover have "- 2147483648 \<le> sint i"
    using sint_greater_eq [of i] by simp
  ultimately have "sint (i + 1) = sint i + 1"
    by (simp add: sint_word_ariths signed_take_bit_int_eq_self)
  moreover have "sint i \<le> sint n"
    using le by (simp add: word_sle_eq)
  ultimately show "((n, i + 1, result * scast i), (n, i, result))
      \<in> measure (\<lambda>(n, i, result). nat (sint n + 1 - sint i))"
    by simp
qed

declare factorial_loop.simps [simp del]

text \<open>
  \<^verbatim>\<open>uint64_t calculateFactorialRuntime(int n)\<close>: the two early returns, then the loop
  started with \<open>result = 1\<close> and \<open>i = 2\<close>.
\<close>

definition calculateFactorialRuntime :: "c_int \<Rightarrow> uint64_t option" where
  "calculateFactorialRuntime n =
     (if n <s 0 then Some 0
      else if n = 0 \<or> n = 1 then Some 1
      else factorial_loop n 2 1)"

text \<open>The exported \<^verbatim>\<open>CalculateFactorial\<close> forwards to the runtime function.\<close>

definition CalculateFactorial :: "c_int \<Rightarrow> uint64_t option" where
  "CalculateFactorial n = calculateFactorialRuntime n"

subsection \<open>The template \<open>Factorial<N>\<close>\<close>

text \<open>
  \<^verbatim>\<open>template<int N> struct Factorial { value = N * Factorial<N - 1>::value; };\<close> with the
  specialisation \<^verbatim>\<open>Factorial<0>::value = 1\<close>.  The member is a \<open>uint64_t\<close>, so \<open>N\<close> is
  converted to it and the product wraps.  A template argument is a compile-time integer;
  for a negative argument the instantiations never reach the specialisation, which is the
  value \<open>None\<close> of the partial function.
\<close>

partial_function (option) Factorial :: "int \<Rightarrow> uint64_t option" where
  "Factorial N =
     (if N = 0 then Some 1
      else Option.bind (Factorial (N - 1)) (\<lambda>v. Some (word_of_int N * v)))"

section \<open>The operating system and the caller's memory\<close>

text \<open>
  The three \<^verbatim>\<open>#ifdef _WIN32 / #elif __APPLE__ / #else\<close> branches are selected when the
  library is built; a value of \<open>platform\<close> names the branch that was compiled.
\<close>

datatype platform = Win32 | Apple | Linux

text \<open>The native calls of the source, as they are recorded in the trace of a run.\<close>

datatype os_call =
    Call_GetComputerNameA | Call_gethostname
  | Call_GlobalMemoryStatusEx | Call_sysctl | Call_sysinfo
  | Call_GetCurrentProcessId | Call_getpid

text \<open>
  The fields of the two native structures that the source reads: \<open>ullTotalPhys\<close> of
  \<open>MEMORYSTATUSEX\<close> (a \<open>DWORDLONG\<close>), and \<open>totalram\<close> (an \<open>unsigned long\<close>, 64 bits on
  an LP64 Linux) and \<open>mem_unit\<close> (an \<open>unsigned int\<close>) of \<open>struct sysinfo\<close>.
\<close>

record MEMORYSTATUSEX =
  ullTotalPhys :: uint64_t

record struct_sysinfo =
  totalram :: "64 word"
  mem_unit :: uint32_t

text \<open>
  What the operating system answers.  Each field is one native call, given as the value
  it returns together with what it stores through its output pointer:
  \<^item> \<open>GetComputerNameA\<close>: from the capacity \<open>*nSize\<close>, the \<open>BOOL\<close> result and the bytes
    stored at \<open>lpBuffer\<close>;
  \<^item> \<open>gethostname\<close>: from the length (a \<open>size_t\<close>), the \<open>int\<close> result and the bytes
    stored at \<open>name\<close>;
  \<^item> \<open>GlobalMemoryStatusEx\<close>: the \<open>BOOL\<close> result and the structure after the call;
  \<^item> \<open>sysctl\<close> for \<open>{CTL_HW, HW_MEMSIZE}\<close>: the \<open>int\<close> result and the value stored at
    \<open>oldp\<close>, if any;
  \<^item> \<open>sysinfo\<close>: the \<open>int\<close> result and the structure after the call;
  \<^item> \<open>GetCurrentProcessId\<close> (a \<open>DWORD\<close>) and \<open>getpid\<close> (a \<open>pid_t\<close>, a signed \<open>int\<close>).
\<close>

record os =
  GetComputerNameA :: "32 word \<Rightarrow> 32 word \<times> 8 word list"
  gethostname :: "64 word \<Rightarrow> c_int \<times> 8 word list"
  GlobalMemoryStatusEx :: "32 word \<times> MEMORYSTATUSEX"
  sysctl :: "c_int \<times> uint64_t option"
  sysinfo :: "c_int \<times> struct_sysinfo"
  GetCurrentProcessId :: "32 word"
  getpid :: c_int

text \<open>
  The state a call can change: the bytes of the caller's address space, and the trace
  of native calls made so far.  The library itself has no global or static variable, so
  there is no further component.
\<close>

record world =
  mem :: "addr \<Rightarrow> 8 word"
  calls :: "os_call list"

fun store_bytes :: "(addr \<Rightarrow> 8 word) \<Rightarrow> addr \<Rightarrow> 8 word list \<Rightarrow> (addr \<Rightarrow> 8 word)" where
  "store_bytes m a [] = m"
| "store_bytes m a (b # bs) = store_bytes (m(a := b)) (a + 1) bs"

definition os_called :: "os_call \<Rightarrow> world \<Rightarrow> world" where
  "os_called c w = w\<lparr>calls := calls w @ [c]\<rparr>"

section \<open>The exported functions\<close>

text \<open>
  \<^verbatim>\<open>bool GetComputerNameString(char* buffer, int bufferSize)\<close>: the argument check, then
  \<^verbatim>\<open>GetComputerNameA(buffer, &size) != 0\<close> with \<open>size = static_cast<DWORD>(bufferSize)\<close> on
  Windows and \<^verbatim>\<open>gethostname(buffer, bufferSize) == 0\<close> elsewhere.
\<close>

definition GetComputerNameString ::
  "platform \<Rightarrow> os \<Rightarrow> addr \<Rightarrow> c_int \<Rightarrow> world \<Rightarrow> bool \<times> world" where
  "GetComputerNameString p os buffer bufferSize w =
     (if buffer = 0 \<or> bufferSize \<le>s 0 then (False, w)
      else case p of
        Win32 \<Rightarrow>
          (let size = (ucast bufferSize :: 32 word);
               (r, bytes) = GetComputerNameA os size
           in (r \<noteq> 0,
               os_called Call_GetComputerNameA (w\<lparr>mem := store_bytes (mem w) buffer bytes\<rparr>)))
      | _ \<Rightarrow>
          (let (r, bytes) = gethostname os (scast bufferSize)
           in (r = 0,
               os_called Call_gethostname (w\<lparr>mem := store_bytes (mem w) buffer bytes\<rparr>))))"

text \<open>
  \<^verbatim>\<open>uint64_t GetTotalPhysicalMemory()\<close>.  On macOS \<open>memSize\<close> starts at 0 and holds what
  \<open>sysctl\<close> stored; on Linux the product is
  \<^verbatim>\<open>static_cast<uint64_t>(info.totalram) * info.mem_unit\<close>, both factors widened to 64 bits.
\<close>

definition GetTotalPhysicalMemory :: "platform \<Rightarrow> os \<Rightarrow> world \<Rightarrow> uint64_t \<times> world" where
  "GetTotalPhysicalMemory p os w =
     (case p of
        Win32 \<Rightarrow>
          (let (r, memStatus) = GlobalMemoryStatusEx os;
               w' = os_called Call_GlobalMemoryStatusEx w
           in if r \<noteq> 0 then (ullTotalPhys memStatus, w') else (0, w'))
      | Apple \<Rightarrow>
          (let (r, written) = sysctl os;
               memSize = (case written of None \<Rightarrow> 0 | Some v \<Rightarrow> v);
               w' = os_called Call_sysctl w
           in if r = 0 then (memSize, w') else (0, w'))
      | Linux \<Rightarrow>
          (let (r, info) = sysinfo os;
               w' = os_called Call_sysinfo w
           in if r = 0 then (ucast (totalram info) * ucast (mem_unit info), w') else (0, w')))"

text \<open>
  \<^verbatim>\<open>uint32_t GetCurrentProcessID()\<close>: \<open>static_cast<uint32_t>\<close> of the native identifier,
  which keeps the 32 bits of the value.
\<close>

definition GetCurrentProcessID :: "platform \<Rightarrow> os \<Rightarrow> world \<Rightarrow> uint32_t \<times> world" where
  "GetCurrentProcessID p os w =
     (case p of
        Win32 \<Rightarrow> (ucast (GetCurrentProcessId os), os_called Call_GetCurrentProcessId w)
      | _ \<Rightarrow> (ucast (getpid os), os_called Call_getpid w))"

subsection \<open>The interface of \<open>systemapi.h\<close>\<close>

text \<open>
  The header exports four functions with C linkage.  A call of the interface is one of
  them with its arguments; its outcome is the returned value, or undefined behaviour
  where the factorial loop overflows its counter.
\<close>

datatype api_call =
    Do_GetComputerNameString addr c_int
  | Do_GetTotalPhysicalMemory
  | Do_GetCurrentProcessID
  | Do_CalculateFactorial c_int

datatype api_result =
    Ret_bool bool
  | Ret_uint64 uint64_t
  | Ret_uint32 uint32_t
  | Undefined_behaviour

fun invoke :: "platform \<Rightarrow> os \<Rightarrow> api_call \<Rightarrow> world \<Rightarrow> api_result \<times> world" where
  "invoke p os (Do_GetComputerNameString buffer bufferSize) w =
     (let (r, w') = GetComputerNameString p os buffer bufferSize w in (Ret_bool r, w'))"
| "invoke p os Do_GetTotalPhysicalMemory w =
     (let (r, w') = GetTotalPhysicalMemory p os w in (Ret_uint64 r, w'))"
| "invoke p os Do_GetCurrentProcessID w =
     (let (r, w') = GetCurrentProcessID p os w in (Ret_uint32 r, w'))"
| "invoke p os (Do_CalculateFactorial n) w =
     (case CalculateFactorial n of
        None \<Rightarrow> (Undefined_behaviour, w)
      | Some r \<Rightarrow> (Ret_uint64 r, w))"

subsection \<open>Two operating systems and a world to run the functions on\<close>

text \<open>
  \<open>sample_os\<close> answers every query: the host is called \<open>host\<close> (five bytes with the
  terminator, refused when the capacity is smaller), the machine has 16 GiB in units of
  4096 bytes, the process identifier is 4242.  \<open>failing_os\<close> fails every query that can
  fail.
\<close>

definition sample_os :: os where
  "sample_os = \<lparr>
     GetComputerNameA = (\<lambda>size. if size < 5 then (0, []) else (1, [0x68, 0x6F, 0x73, 0x74, 0])),
     gethostname = (\<lambda>len. if len < 5 then (- 1, [0x68, 0x6F, 0x73, 0x74])
                           else (0, [0x68, 0x6F, 0x73, 0x74, 0])),
     GlobalMemoryStatusEx = (1, \<lparr>ullTotalPhys = 17179869184\<rparr>),
     sysctl = (0, Some 17179869184),
     sysinfo = (0, \<lparr>totalram = 4194304, mem_unit = 4096\<rparr>),
     GetCurrentProcessId = 4242,
     getpid = 4242 \<rparr>"

definition failing_os :: os where
  "failing_os = \<lparr>
     GetComputerNameA = (\<lambda>size. (0, [])),
     gethostname = (\<lambda>len. (- 1, [])),
     GlobalMemoryStatusEx = (0, \<lparr>ullTotalPhys = 123\<rparr>),
     sysctl = (- 1, None),
     sysinfo = (- 1, \<lparr>totalram = 123, mem_unit = 4096\<rparr>),
     GetCurrentProcessId = 4242,
     getpid = 4242 \<rparr>"

definition initial_world :: world where
  "initial_world = \<lparr> mem = (\<lambda>a. 0), calls = [] \<rparr>"

section \<open>Properties of the factorial\<close>

lemma sint_INT_MAX: "sint INT_MAX = 2147483647"
  by (simp add: INT_MAX_def)

lemma eq_INT_MAX_iff: "(i = INT_MAX) = (sint i = 2147483647)"
  using word_eq_iff_signed [of i INT_MAX, where ?'a = int] by (simp add: sint_INT_MAX)

lemma sint_succ: "i \<noteq> INT_MAX \<Longrightarrow> sint (i + 1) = sint i + 1"
proof -
  assume ne: "i \<noteq> INT_MAX"
  have "sint i < 2147483648" using sint_less [of i] by simp
  moreover have "sint i \<noteq> 2147483647" using ne by (simp add: eq_INT_MAX_iff)
  moreover have "- 2147483648 \<le> sint i" using sint_greater_eq [of i] by simp
  ultimately show ?thesis
    by (simp add: sint_word_ariths signed_take_bit_int_eq_self)
qed

text \<open>A non-negative counter converts to \<open>uint64_t\<close> without change of value.\<close>

lemma scast_nonneg:
  "0 \<le> sint (i :: c_int) \<Longrightarrow> (scast i :: uint64_t) = of_nat (nat (sint i))"
proof -
  assume "0 \<le> sint i"
  then have "sint i = int (nat (sint i))" by simp
  then show ?thesis by (metis scast_eq of_int_of_nat_eq)
qed

text \<open>With \<open>n = INT_MAX\<close> the test \<open>i <= n\<close> never fails, so the counter overflows.\<close>

lemma factorial_loop_INT_MAX: "factorial_loop INT_MAX i result = None"
proof (induction "INT_MAX" i result rule: factorial_loop.induct)
  case (1 i result)
  show ?case
  proof (cases "i = INT_MAX")
    case True
    then show ?thesis by (subst factorial_loop.simps) simp
  next
    case False
    have "sint i < 2147483648" using sint_less [of i] by simp
    then have le: "i \<le>s INT_MAX" by (simp add: word_sle_eq sint_INT_MAX)
    have "factorial_loop INT_MAX (i + 1) (result * scast i) = None"
      using le False by (rule 1)
    then show ?thesis using le False by (subst factorial_loop.simps) simp
  qed
qed

lemma calculateFactorialRuntime_INT_MAX: "calculateFactorialRuntime INT_MAX = None"
  by (simp add: calculateFactorialRuntime_def factorial_loop_INT_MAX word_sless_alt)
     (simp add: INT_MAX_def)

text \<open>One iteration keeps the invariant \<open>result = (i - 1)!\<close> (modulo \<open>2 ^ 64\<close>).\<close>

lemma factorial_loop_step:
  assumes "2 \<le> sint i" and "i \<noteq> INT_MAX"
  shows "(of_nat (fact (nat (sint i) - 1)) :: uint64_t) * scast i
           = of_nat (fact (nat (sint (i + 1)) - 1))"
proof -
  have s: "nat (sint (i + 1)) - 1 = nat (sint i)"
    using assms by (simp add: sint_succ)
  have "0 < nat (sint i)" using assms by simp
  then have f: "(fact (nat (sint i)) :: nat) = nat (sint i) * fact (nat (sint i) - 1)"
    by (simp add: fact_reduce)
  have c: "(scast i :: uint64_t) = of_nat (nat (sint i))"
    using assms by (intro scast_nonneg) simp
  show ?thesis
    unfolding s c f by (simp add: mult.commute)
qed

lemma factorial_loop_fact:
  "2 \<le> sint i \<Longrightarrow> sint i \<le> sint n + 1 \<Longrightarrow> n \<noteq> INT_MAX \<Longrightarrow>
   result = of_nat (fact (nat (sint i) - 1)) \<Longrightarrow>
   factorial_loop n i result = Some (of_nat (fact (nat (sint n))))"
proof (induction n i result rule: factorial_loop.induct)
  case (1 n i result)
  show ?case
  proof (cases "i \<le>s n")
    case True
    then have le: "sint i \<le> sint n" by (simp add: word_sle_eq)
    have "sint n \<noteq> 2147483647" using "1.prems"(3) by (simp add: eq_INT_MAX_iff)
    moreover have "sint n < 2147483648" using sint_less [of n] by simp
    ultimately have "sint i \<noteq> 2147483647" using le by linarith
    then have ne: "i \<noteq> INT_MAX" by (simp add: eq_INT_MAX_iff)
    have s: "sint (i + 1) = sint i + 1" using ne by (rule sint_succ)
    have r: "result * scast i = of_nat (fact (nat (sint (i + 1)) - 1))"
      unfolding "1.prems"(4) using "1.prems"(1) ne by (rule factorial_loop_step)
    have p1: "2 \<le> sint (i + 1)" using "1.prems"(1) s by simp
    have p2: "sint (i + 1) \<le> sint n + 1" using le s by simp
    have "factorial_loop n (i + 1) (result * scast i) = Some (of_nat (fact (nat (sint n))))"
      using True ne p1 p2 "1.prems"(3) r by (rule "1.IH")
    then show ?thesis using True ne by (subst factorial_loop.simps) simp
  next
    case False
    then have "sint i = sint n + 1" using "1.prems"(2) by (simp add: word_sle_eq)
    then have "nat (sint i) - 1 = nat (sint n)" by simp
    then show ?thesis using False "1.prems"(4) by (subst factorial_loop.simps) simp
  qed
qed

lemma calculateFactorialRuntime_fact:
  assumes "2 \<le> sint n" and "n \<noteq> INT_MAX"
  shows "calculateFactorialRuntime n = Some (of_nat (fact (nat (sint n))))"
proof -
  have a: "\<not> n <s 0" using assms(1) by (simp add: word_sless_alt)
  have b: "n \<noteq> 0" using assms(1) by auto
  have c: "n \<noteq> 1" using assms(1) by auto
  have "factorial_loop n 2 1 = Some (of_nat (fact (nat (sint n))))"
    using assms by (intro factorial_loop_fact) simp_all
  then show ?thesis using a b c by (simp add: calculateFactorialRuntime_def)
qed

text \<open>\<open>INT_MAX\<close> is the only argument at which the function has no defined result.\<close>

lemma calculateFactorialRuntime_None_iff:
  "(calculateFactorialRuntime n = None) = (n = INT_MAX)"
proof (cases "n = INT_MAX")
  case True
  then show ?thesis by (simp add: calculateFactorialRuntime_INT_MAX)
next
  case False
  show ?thesis
  proof (cases "n <s 0 \<or> n = 0 \<or> n = 1")
    case True
    then show ?thesis using False by (auto simp: calculateFactorialRuntime_def)
  next
    case False2: False
    then have "0 \<le> sint n" by (simp add: word_sless_alt)
    moreover have "sint n \<noteq> 0"
      using False2 word_eq_iff_signed [of n 0, where ?'a = int] by simp
    moreover have "sint n \<noteq> 1"
      using False2 word_eq_iff_signed [of n 1, where ?'a = int] by simp
    ultimately have "2 \<le> sint n" by linarith
    then show ?thesis using False by (simp add: calculateFactorialRuntime_fact)
  qed
qed

text \<open>
  Below \<open>INT_MAX\<close> the exported function returns \<open>n!\<close> modulo \<open>2 ^ 64\<close> for every
  \<open>n \<ge> 2\<close>, and the three values that the specification lists.
\<close>

lemma CalculateFactorial_fact:
  "2 \<le> sint n \<Longrightarrow> n \<noteq> INT_MAX \<Longrightarrow>
   CalculateFactorial n = Some (of_nat (fact (nat (sint n))))"
  by (simp add: CalculateFactorial_def calculateFactorialRuntime_fact)

lemma CalculateFactorial_mod:
  assumes "2 \<le> sint n" and "n \<noteq> INT_MAX"
  shows "\<exists>v. CalculateFactorial n = Some v \<and> unat v = fact (nat (sint n)) mod 2 ^ 64"
  using CalculateFactorial_fact [OF assms] by (simp add: unat_of_nat)

lemma CalculateFactorial_5: "CalculateFactorial 5 = Some 120"
  by (simp add: CalculateFactorial_def calculateFactorialRuntime_def factorial_loop.simps
      INT_MAX_def word_sle_eq word_sless_alt)

lemma CalculateFactorial_20: "CalculateFactorial 20 = Some 2432902008176640000"
  by (simp add: CalculateFactorial_def calculateFactorialRuntime_def factorial_loop.simps
      INT_MAX_def word_sle_eq word_sless_alt)

lemma CalculateFactorial_21: "CalculateFactorial 21 = Some 14197454024290336768"
  by (simp add: CalculateFactorial_def calculateFactorialRuntime_def factorial_loop.simps
      INT_MAX_def word_sle_eq word_sless_alt)

lemma fact_21_wrapped: "(fact 21 :: nat) mod 2 ^ 64 = 14197454024290336768"
  by (simp add: fact_numeral)

lemma INT_MAX_numeral: "(2147483647 :: c_int) = INT_MAX"
  by (simp add: INT_MAX_def)

text \<open>
  C1.  The claim is that for every \<open>n \<ge> 2\<close> the function returns \<open>2 * 3 * \<dots> * n\<close>
  modulo \<open>2 ^ 64\<close>.  The code does so for \<open>2 \<le> n < INT_MAX\<close> (\<open>CalculateFactorial_fact\<close>,
  \<open>CalculateFactorial_mod\<close>) and at 5, 20 and 21 (\<open>CalculateFactorial_5\<close>,
  \<open>CalculateFactorial_20\<close>, \<open>CalculateFactorial_21\<close>).  At \<open>n = INT_MAX = 2147483647\<close> the
  test \<open>i <= n\<close> holds for every \<open>int\<close>, the counter is incremented at \<open>INT_MAX\<close>, and
  the call has no defined result.
\<close>

theorem CalculateFactorial_INT_MAX_undefined: "CalculateFactorial 2147483647 = None"
  by (simp only: INT_MAX_numeral CalculateFactorial_def calculateFactorialRuntime_INT_MAX)

text \<open>
  C2.  \<open>CalculateFactorial\<close> returns 0 for every negative \<open>n\<close>, and 1 for \<open>n = 0\<close> and
  for \<open>n = 1\<close>.
\<close>

theorem CalculateFactorial_small:
  "(n <s 0 \<longrightarrow> CalculateFactorial n = Some 0)
   \<and> CalculateFactorial 0 = Some 1
   \<and> CalculateFactorial 1 = Some 1"
  by (simp add: CalculateFactorial_def calculateFactorialRuntime_def word_sless_alt)

theorem CalculateFactorial_small_witness:
  "(- 5 :: c_int) <s 0 \<and> CalculateFactorial (- 5) = Some 0"
  using CalculateFactorial_small [of "- 5"] by (simp add: word_sless_alt)

subsection \<open>The template against the runtime function\<close>

lemma Factorial_nat: "Factorial (int k) = Some (of_nat (fact k))"
proof (induction k)
  case 0
  show ?case by (subst Factorial.simps) simp
next
  case (Suc k)
  have "Factorial (int (Suc k))
      = Option.bind (Factorial (int k)) (\<lambda>v. Some (word_of_int (int (Suc k)) * v))"
    by (subst Factorial.simps) simp
  then show ?case using Suc by (simp add: algebra_simps)
qed

lemma Factorial_int:
  assumes "0 \<le> N"
  shows "Factorial N = Some (of_nat (fact (nat N)))"
proof -
  have "Factorial (int (nat N)) = Some (of_nat (fact (nat N)))" by (rule Factorial_nat)
  then show ?thesis using assms by simp
qed

text \<open>A negative template argument has no value.\<close>

lemma Factorial_Some_nonneg:
  assumes "Factorial N = Some y"
  shows "0 \<le> N"
proof (rule Factorial.raw_induct [where P = "\<lambda>N y. 0 \<le> N", OF _ assms])
  fix f :: "int \<Rightarrow> uint64_t option" and M :: int and z :: uint64_t
  assume IH: "\<And>x y. f x = Some y \<Longrightarrow> 0 \<le> x"
  assume eq: "(if M = 0 then Some 1
               else Option.bind (f (M - 1)) (\<lambda>v. Some (word_of_int M * v))) = Some z"
  show "0 \<le> M"
  proof (cases "M = 0")
    case True
    then show ?thesis by simp
  next
    case False
    then obtain v where "f (M - 1) = Some v"
      using eq by (auto simp: bind_eq_Some_conv)
    then have "0 \<le> M - 1" by (rule IH)
    then show ?thesis by simp
  qed
qed

lemma Factorial_negative: "N < 0 \<Longrightarrow> Factorial N = None"
  using Factorial_Some_nonneg [of N] by (cases "Factorial N") auto

lemma sint_word_of_int:
  assumes "0 \<le> N" and "N < 2147483647"
  shows "sint (word_of_int N :: c_int) = N"
proof -
  have "signed_take_bit 31 N = N"
    using assms by (intro signed_take_bit_int_eq_self) simp_all
  then show ?thesis by (simp add: signed_of_int)
qed

lemma calculateFactorialRuntime_int:
  assumes "0 \<le> N" and "N < 2147483647"
  shows "calculateFactorialRuntime (word_of_int N) = Some (of_nat (fact (nat N)))"
proof -
  have s: "sint (word_of_int N :: c_int) = N"
    using assms by (rule sint_word_of_int)
  have ne: "(word_of_int N :: c_int) \<noteq> INT_MAX"
    using assms s by (simp add: eq_INT_MAX_iff)
  show ?thesis
  proof (cases "2 \<le> N")
    case True
    then have "2 \<le> sint (word_of_int N :: c_int)" using s by simp
    then show ?thesis using ne s by (simp add: calculateFactorialRuntime_fact)
  next
    case False
    then have "N = 0 \<or> N = 1" using assms by auto
    then show ?thesis by (auto simp: calculateFactorialRuntime_def word_sless_alt)
  qed
qed

text \<open>
  Below \<open>INT_MAX\<close> the template and the runtime function agree: for \<open>0 \<le> N < INT_MAX\<close>
  both give \<open>N!\<close> modulo \<open>2 ^ 64\<close>, and the exported function is the runtime function.
\<close>

lemma Factorial_agrees_below_INT_MAX:
  "CalculateFactorial n = calculateFactorialRuntime n
   \<and> (0 \<le> N \<and> N < 2147483647 \<longrightarrow>
        Factorial N = calculateFactorialRuntime (word_of_int N)
        \<and> Factorial N = Some (of_nat (fact (nat N))))"
  by (simp add: CalculateFactorial_def Factorial_int calculateFactorialRuntime_int)

lemma Factorial_agrees_at_5:
  "CalculateFactorial 5 = calculateFactorialRuntime 5
   \<and> Factorial 5 = calculateFactorialRuntime 5
   \<and> Factorial 5 = Some 120"
  using Factorial_agrees_below_INT_MAX [of 5 5] by (auto simp: fact_numeral)

subsection \<open>Large arguments\<close>

lemma fact_66_dvd: "(2 :: nat) ^ 64 dvd fact 66"
  by (simp add: fact_numeral)

lemma fact_ge_66_dvd: "66 \<le> k \<Longrightarrow> (2 :: nat) ^ 64 dvd fact k"
  using fact_66_dvd fact_dvd [of 66 k, where ?'a = nat] dvd_trans by blast

lemma word_of_fact_zero: "66 \<le> k \<Longrightarrow> (of_nat (fact k) :: uint64_t) = 0"
  using fact_ge_66_dvd [of k] by (simp add: word_of_nat_eq_0_iff)

text \<open>\<open>2 ^ 64\<close> divides \<open>66!\<close>, so the wrapped product is 0 from 66 on, below \<open>INT_MAX\<close>.\<close>

lemma CalculateFactorial_large:
  assumes "66 \<le> sint n" and "n \<noteq> INT_MAX"
  shows "CalculateFactorial n = Some 0"
proof -
  have "66 \<le> nat (sint n)" using assms(1) by simp
  then have "(of_nat (fact (nat (sint n))) :: uint64_t) = 0" by (rule word_of_fact_zero)
  moreover have "2 \<le> sint n" using assms(1) by simp
  ultimately show ?thesis using assms(2) by (simp add: CalculateFactorial_fact)
qed


text \<open>
  C9.  The claim is that \<open>CalculateFactorial n\<close> returns exactly 0 for every \<open>n \<ge> 67\<close>.
  It does for \<open>67 \<le> n < INT_MAX\<close> (\<open>CalculateFactorial_large\<close>, already from 66).  The
  largest argument, \<open>INT_MAX = 2147483647\<close>, is at least 67 and the call does not return
  0: it overflows the loop counter.
\<close>

theorem CalculateFactorial_INT_MAX_not_zero:
  "67 \<le> sint (2147483647 :: c_int) \<and> CalculateFactorial 2147483647 \<noteq> Some 0"
proof -
  have "CalculateFactorial 2147483647 = None"
    by (simp only: INT_MAX_numeral CalculateFactorial_def calculateFactorialRuntime_INT_MAX)
  then show ?thesis by simp
qed

section \<open>Properties of the host queries\<close>

subsection \<open>\<open>GetComputerNameString\<close>\<close>

text \<open>
  C3.  \<open>GetComputerNameString\<close> returns false exactly when the buffer is null, or
  \<open>bufferSize \<le> 0\<close>, or the native host-name call fails (\<open>GetComputerNameA\<close> returns 0,
  \<open>gethostname\<close> returns a value other than 0); in particular it returns false for a
  null buffer with any capacity and for any buffer with capacity 0.
\<close>

theorem GetComputerNameString_false_iff:
  "(fst (GetComputerNameString p os buffer bufferSize w) = False)
     = (buffer = 0 \<or> bufferSize \<le>s 0 \<or>
        (case p of
           Win32 \<Rightarrow> fst (GetComputerNameA os (ucast bufferSize)) = 0
         | _ \<Rightarrow> fst (gethostname os (scast bufferSize)) \<noteq> 0))
   \<and> fst (GetComputerNameString p os 0 bufferSize w) = False
   \<and> fst (GetComputerNameString p os buffer 0 w) = False"
  by (simp add: GetComputerNameString_def split: platform.split prod.split)

theorem GetComputerNameString_false_iff_witness:
  "fst (GetComputerNameString Linux sample_os 0x1000 4 initial_world) = False
   \<and> fst (GetComputerNameString Win32 sample_os 0x1000 64 initial_world) = True"
  using GetComputerNameString_false_iff [of Linux sample_os "0x1000" 4 initial_world]
    GetComputerNameString_false_iff [of Win32 sample_os "0x1000" 64 initial_world]
  by (simp add: sample_os_def word_sle_eq)

text \<open>
  C10.  When the buffer is null or \<open>bufferSize \<le> 0\<close>, \<open>GetComputerNameString\<close> returns
  false and leaves the world as it was: no native call is added to the trace and no byte
  of memory changes.
\<close>

theorem GetComputerNameString_invalid_args:
  "buffer = 0 \<or> bufferSize \<le>s 0 \<Longrightarrow>
   GetComputerNameString p os buffer bufferSize w = (False, w)"
  by (simp add: GetComputerNameString_def)

theorem GetComputerNameString_invalid_args_witness:
  "GetComputerNameString Linux sample_os 0x1000 0 initial_world = (False, initial_world)
   \<and> GetComputerNameString Win32 sample_os 0 64 initial_world = (False, initial_world)"
  using GetComputerNameString_invalid_args [of "0x1000" 0 Linux sample_os initial_world]
    GetComputerNameString_invalid_args [of 0 64 Win32 sample_os initial_world]
  by simp

subsection \<open>\<open>GetTotalPhysicalMemory\<close>\<close>

text \<open>
  C4.  On the Linux branch, when \<open>sysinfo\<close> succeeds, \<open>GetTotalPhysicalMemory\<close> returns
  \<open>totalram * mem_unit\<close>, multiplied as 64-bit unsigned integers: the result read as a
  number is the product of the two fields modulo \<open>2 ^ 64\<close>.
\<close>

theorem GetTotalPhysicalMemory_Linux:
  "fst (sysinfo os) = 0 \<Longrightarrow>
   fst (GetTotalPhysicalMemory Linux os w)
     = ucast (totalram (snd (sysinfo os))) * ucast (mem_unit (snd (sysinfo os)))
   \<and> unat (fst (GetTotalPhysicalMemory Linux os w))
     = (unat (totalram (snd (sysinfo os))) * unat (mem_unit (snd (sysinfo os)))) mod 2 ^ 64"
  by (simp add: GetTotalPhysicalMemory_def Let_def split_beta unat_word_ariths
      unsigned_ucast_eq take_bit_eq_mod mod_mult_right_eq)

theorem GetTotalPhysicalMemory_Linux_witness:
  "fst (sysinfo sample_os) = 0
   \<and> fst (GetTotalPhysicalMemory Linux sample_os initial_world) = 17179869184"
  using GetTotalPhysicalMemory_Linux [of sample_os initial_world]
  by (simp add: sample_os_def)

text \<open>
  C5.  \<open>GetTotalPhysicalMemory\<close> returns 0 whenever the native memory query fails, on
  each of the three branches: \<open>GlobalMemoryStatusEx\<close> returning 0 on Windows, \<open>sysctl\<close>
  returning a value other than 0 on macOS, \<open>sysinfo\<close> returning a value other than 0 on
  Linux.  The function has a value at every input; it has no failing outcome.
\<close>

theorem GetTotalPhysicalMemory_failure:
  "(fst (GlobalMemoryStatusEx os) = 0 \<longrightarrow> fst (GetTotalPhysicalMemory Win32 os w) = 0)
   \<and> (fst (sysctl os) \<noteq> 0 \<longrightarrow> fst (GetTotalPhysicalMemory Apple os w) = 0)
   \<and> (fst (sysinfo os) \<noteq> 0 \<longrightarrow> fst (GetTotalPhysicalMemory Linux os w) = 0)"
  by (simp add: GetTotalPhysicalMemory_def Let_def split_beta)

theorem GetTotalPhysicalMemory_failure_witness:
  "fst (GlobalMemoryStatusEx failing_os) = 0 \<and> fst (sysctl failing_os) \<noteq> 0
   \<and> fst (sysinfo failing_os) \<noteq> 0
   \<and> fst (GetTotalPhysicalMemory Win32 failing_os initial_world) = 0
   \<and> fst (GetTotalPhysicalMemory Apple failing_os initial_world) = 0
   \<and> fst (GetTotalPhysicalMemory Linux failing_os initial_world) = 0"
  using GetTotalPhysicalMemory_failure [of failing_os initial_world]
  by (simp add: failing_os_def)

subsection \<open>\<open>GetCurrentProcessID\<close>\<close>

text \<open>
  C6.  \<open>GetCurrentProcessID\<close> takes no argument and has no failing outcome: on every
  branch it returns the identifier the operating system reports, as an unsigned 32-bit
  integer.  For the signed \<open>pid_t\<close> of \<open>getpid\<close> the unsigned reading is the identifier
  modulo \<open>2 ^ 32\<close>.
\<close>

theorem GetCurrentProcessID_pid:
  "fst (GetCurrentProcessID Win32 os w) = GetCurrentProcessId os
   \<and> fst (GetCurrentProcessID Apple os w) = getpid os
   \<and> fst (GetCurrentProcessID Linux os w) = getpid os
   \<and> uint (fst (GetCurrentProcessID Linux os w)) = sint (getpid os) mod 2 ^ 32
   \<and> uint (fst (GetCurrentProcessID Apple os w)) = sint (getpid os) mod 2 ^ 32
   \<and> uint (fst (GetCurrentProcessID Win32 os w)) = uint (GetCurrentProcessId os)"
  by (simp add: GetCurrentProcessID_def uint_sint [of "getpid os"] take_bit_eq_mod)

section \<open>No hidden state\<close>

text \<open>Storing the same bytes at the same address a second time changes nothing.\<close>

lemma store_bytes_absorb:
  "(\<And>x. m' x = m x \<or> m' x = store_bytes m a bs x) \<Longrightarrow>
   store_bytes m' a bs = store_bytes m a bs"
proof (induction bs arbitrary: a m m')
  case Nil
  then show ?case by auto
next
  case (Cons b bs)
  have "store_bytes (m'(a := b)) (a + 1) bs = store_bytes (m(a := b)) (a + 1) bs"
  proof (rule Cons.IH)
    fix x
    show "(m'(a := b)) x = (m(a := b)) x
        \<or> (m'(a := b)) x = store_bytes (m(a := b)) (a + 1) bs x"
      using Cons.prems [of x] by (cases "x = a") simp_all
  qed
  then show ?case by simp
qed

lemma store_bytes_idem: "store_bytes (store_bytes m a bs) a bs = store_bytes m a bs"
  by (rule store_bytes_absorb) simp

lemma GetComputerNameString_fst_world:
  "fst (GetComputerNameString p os buffer bufferSize w1)
     = fst (GetComputerNameString p os buffer bufferSize w2)"
  by (simp add: GetComputerNameString_def split: platform.split prod.split)

lemma GetComputerNameString_mem_world:
  "mem w1 = mem w2 \<Longrightarrow>
   mem (snd (GetComputerNameString p os buffer bufferSize w1))
     = mem (snd (GetComputerNameString p os buffer bufferSize w2))"
  by (simp add: GetComputerNameString_def os_called_def split: platform.split prod.split)

lemma GetComputerNameString_mem_idem:
  "mem (snd (GetComputerNameString p os buffer bufferSize
               (snd (GetComputerNameString p os buffer bufferSize w))))
     = mem (snd (GetComputerNameString p os buffer bufferSize w))"
  by (simp add: GetComputerNameString_def os_called_def store_bytes_idem
      split: platform.split prod.split)

lemma GetTotalPhysicalMemory_fst_world:
  "fst (GetTotalPhysicalMemory p os w1) = fst (GetTotalPhysicalMemory p os w2)"
  by (simp add: GetTotalPhysicalMemory_def Let_def split: platform.split prod.split)

lemma GetTotalPhysicalMemory_mem:
  "mem (snd (GetTotalPhysicalMemory p os w)) = mem w"
  by (simp add: GetTotalPhysicalMemory_def Let_def os_called_def
      split: platform.split prod.split)

lemma GetCurrentProcessID_fst_world:
  "fst (GetCurrentProcessID p os w1) = fst (GetCurrentProcessID p os w2)"
  by (simp add: GetCurrentProcessID_def split: platform.split)

lemma GetCurrentProcessID_mem:
  "mem (snd (GetCurrentProcessID p os w)) = mem w"
  by (simp add: GetCurrentProcessID_def os_called_def split: platform.split)

lemma invoke_fst_world: "fst (invoke p os c w1) = fst (invoke p os c w2)"
proof (cases c)
  case (Do_GetComputerNameString buffer bufferSize)
  then show ?thesis
    using GetComputerNameString_fst_world [of p os buffer bufferSize w1 w2]
    by (simp add: split_beta)
next
  case Do_GetTotalPhysicalMemory
  then show ?thesis
    using GetTotalPhysicalMemory_fst_world [of p os w1 w2] by (simp add: split_beta)
next
  case Do_GetCurrentProcessID
  then show ?thesis
    using GetCurrentProcessID_fst_world [of p os w1 w2] by (simp add: split_beta)
next
  case (Do_CalculateFactorial n)
  then show ?thesis by (simp split: option.split)
qed

lemma invoke_mem_world:
  "mem w1 = mem w2 \<Longrightarrow> mem (snd (invoke p os c w1)) = mem (snd (invoke p os c w2))"
proof (cases c)
  case (Do_GetComputerNameString buffer bufferSize)
  assume "mem w1 = mem w2"
  then show ?thesis
    using Do_GetComputerNameString
      GetComputerNameString_mem_world [of w1 w2 p os buffer bufferSize]
    by (simp add: split_beta)
next
  case Do_GetTotalPhysicalMemory
  assume "mem w1 = mem w2"
  then show ?thesis
    using Do_GetTotalPhysicalMemory by (simp add: split_beta GetTotalPhysicalMemory_mem)
next
  case Do_GetCurrentProcessID
  assume "mem w1 = mem w2"
  then show ?thesis
    using Do_GetCurrentProcessID by (simp add: split_beta GetCurrentProcessID_mem)
next
  case (Do_CalculateFactorial n)
  assume "mem w1 = mem w2"
  then show ?thesis using Do_CalculateFactorial by (simp split: option.split)
qed

lemma invoke_mem_idem:
  "mem (snd (invoke p os c (snd (invoke p os c w)))) = mem (snd (invoke p os c w))"
proof (cases c)
  case (Do_GetComputerNameString buffer bufferSize)
  then show ?thesis
    using GetComputerNameString_mem_idem [of p os buffer bufferSize w]
    by (simp add: split_beta)
next
  case Do_GetTotalPhysicalMemory
  then show ?thesis by (simp add: split_beta GetTotalPhysicalMemory_mem)
next
  case Do_GetCurrentProcessID
  then show ?thesis by (simp add: split_beta GetCurrentProcessID_mem)
next
  case (Do_CalculateFactorial n)
  then show ?thesis by (simp split: option.split)
qed

text \<open>
  C7.  Every exported operation gives the same output for the same inputs and the same
  operating-system answers, whatever happened before: the outcome of a call does not
  depend on the world it starts from (neither on memory contents nor on the calls made
  earlier); worlds with equal memory are left with equal memory; and calling again
  after the first call gives the same outcome and the same memory.
\<close>

theorem invoke_deterministic:
  "fst (invoke p os c w1) = fst (invoke p os c w2)
   \<and> (mem w1 = mem w2 \<longrightarrow> mem (snd (invoke p os c w1)) = mem (snd (invoke p os c w2)))
   \<and> fst (invoke p os c (snd (invoke p os c w1))) = fst (invoke p os c w1)
   \<and> mem (snd (invoke p os c (snd (invoke p os c w1)))) = mem (snd (invoke p os c w1))"
  using invoke_fst_world [of p os c w1 w2] invoke_mem_world [of w1 w2 p os c]
    invoke_fst_world [of p os c "snd (invoke p os c w1)" w1] invoke_mem_idem [of p os c w1]
  by blast

theorem invoke_deterministic_witness:
  "mem initial_world = mem (os_called Call_getpid initial_world)
   \<and> mem (snd (invoke Linux sample_os (Do_GetComputerNameString 0x1000 64) initial_world))
       = mem (snd (invoke Linux sample_os (Do_GetComputerNameString 0x1000 64)
                     (os_called Call_getpid initial_world)))"
  using invoke_deterministic [of Linux sample_os "Do_GetComputerNameString 0x1000 64"
      initial_world "os_called Call_getpid initial_world"]
  by (simp add: os_called_def)

end
